theory Spec2Isabelle
  imports Main "HOL-Library.Word"
begin

section \<open>GEM VRAM helpers: data model\<close>

text \<open>
  A shallow embedding of \<^verbatim>\<open>drivers/gpu/drm/drm_gem_vram_helper.c\<close>. A buffer object
  (\<^verbatim>\<open>struct drm_gem_vram_object\<close>) is a record that every helper takes and returns.
  The services of TTM and of the GEM core that the helpers call, but that live in other
  files, are parameters: a record of functions (\<open>ttm_env\<close>, \<open>gem_env\<close>), so that every
  theorem holds for whatever these services answer.

  A pointer that may be \<^verbatim>\<open>NULL\<close> is an \<open>option\<close>; a \<^verbatim>\<open>void *\<close> result that may be an
  \<^verbatim>\<open>ERR_PTR()\<close> is a sum, \<open>Inl\<close> carrying the error code. A bit mask of placement flags
  is the set of the flags it holds (\<^verbatim>\<open>|\<close> is union, \<^verbatim>\<open>&\<close> with one flag is membership,
  \<^verbatim>\<open>&= ~f\<close> removes \<open>f\<close>, \<^verbatim>\<open>if (mask)\<close> asks whether the set is non-empty).
\<close>

type_synonym addr = nat

type_synonym void_ptr = "int + addr option"

datatype pl_flag =
    TTM_PL_FLAG_SYSTEM
  | TTM_PL_FLAG_TT
  | TTM_PL_FLAG_VRAM
  | TTM_PL_FLAG_CACHED
  | TTM_PL_FLAG_UNCACHED
  | TTM_PL_FLAG_WC
  | TTM_PL_FLAG_NO_EVICT

definition TTM_PL_MASK_CACHING :: "pl_flag set" where
  "TTM_PL_MASK_CACHING = {TTM_PL_FLAG_CACHED, TTM_PL_FLAG_UNCACHED, TTM_PL_FLAG_WC}"

definition ENOMEM :: int where "ENOMEM = 12"
definition EINVAL :: int where "EINVAL = 22"

text \<open>
  The ghost log of an object: the diagnostics raised on it (\<^verbatim>\<open>WARN_ON\<close>, \<^verbatim>\<open>WARN_ON_ONCE\<close>,
  \<^verbatim>\<open>WARN_ONCE\<close>: an entry \<open>Warn\<close> with the tested condition each time the condition holds)
  and the calls made for it into TTM and the GEM core that change memory state, latest
  last. Taking and dropping the reservation lock is not logged.
\<close>

datatype event = Warn string | Call string

record ttm_place =
  fpfn :: nat
  lpfn :: nat
  flags :: "pl_flag set"

text \<open>
  \<^verbatim>\<open>struct ttm_placement\<close> holds two pointers, each either \<^verbatim>\<open>NULL\<close> or the address of the
  object's own array \<^verbatim>\<open>gbo->placements\<close>.
\<close>

datatype place_ref = NULL_places | gbo_placements

record ttm_placement =
  num_placement :: nat
  placement_ref :: place_ref
  num_busy_placement :: nat
  busy_placement_ref :: place_ref

text \<open>
  The part of \<^verbatim>\<open>struct ttm_buffer_object\<close> that belongs to TTM: where the buffer lives
  (\<open>mem_type\<close>), its offset there and its size in pages. The helpers never write it; TTM
  does, in \<open>ttm_bo_init\<close> and \<open>ttm_bo_validate\<close>.
\<close>

record ttm_buffer_object =
  mem_type :: nat
  offset :: nat
  num_pages :: nat

text \<open>
  Modelled from the spec: \<^verbatim>\<open>struct ttm_bo_kmap_obj\<close> and \<^verbatim>\<open>ttm_kmap_obj_virtual()\<close> are
  declared in \<^verbatim>\<open>include/drm/ttm/ttm_bo_api.h\<close>, which is not part of the tree. The spec's
  mapping cache has a \<open>virtual_address\<close> (optional) and a flag \<open>is_io_memory\<close>, and kmap
  returns both.
\<close>

record ttm_bo_kmap_obj =
  virtual :: "addr option"
  bo_kmap_iomem :: bool

definition ttm_kmap_obj_virtual :: "ttm_bo_kmap_obj \<Rightarrow> addr option \<times> bool" where
  "ttm_kmap_obj_virtual m = (virtual m, bo_kmap_iomem m)"

text \<open>
  Modelled from the spec: \<^verbatim>\<open>struct drm_gem_vram_object\<close> is declared in
  \<^verbatim>\<open>include/drm/drm_gem_vram_helper.h\<close>, which is not part of the tree. The fields are the
  ones the helpers use; the two counters are the spec's "integer \<ge> 0" counters, without a
  machine width: \<open>pin_count\<close> is signed in the code (an \<open>int\<close> here, so that a negative
  value can be told from a valid one), \<open>kmap_use_count\<close> is unsigned (a \<open>nat\<close>; its only
  decrement is guarded by a test for zero). \<open>klog\<close> is the ghost log.
\<close>

record drm_gem_vram_object =
  bo :: ttm_buffer_object
  kmap :: ttm_bo_kmap_obj
  kmap_use_count :: nat
  placement :: ttm_placement
  placements :: "ttm_place list"
  pin_count :: int
  klog :: "event list"

text \<open>
  The TTM services, as parameters. \<open>ttm_bo_reserve bo interruptible no_wait\<close> answers 0 or
  an error code. \<open>ttm_bo_validate\<close> reads the whole object and answers its return code, the
  new TTM part of the object and, when TTM moved the buffer and so called the driver's
  \<^verbatim>\<open>move_notify\<close> hook, \<open>Some evict\<close>. \<open>ttm_bo_kmap bo start_page num_pages map\<close> answers its
  return code and the new content of the map object.
\<close>

record ttm_env =
  ttm_bo_reserve :: "ttm_buffer_object \<Rightarrow> bool \<Rightarrow> bool \<Rightarrow> int"
  ttm_bo_validate :: "drm_gem_vram_object \<Rightarrow> int \<times> ttm_buffer_object \<times> bool option"
  ttm_bo_kmap :: "ttm_buffer_object \<Rightarrow> nat \<Rightarrow> nat \<Rightarrow> ttm_bo_kmap_obj \<Rightarrow> int \<times> ttm_bo_kmap_obj"

section \<open>Buffer-object helpers\<close>

definition log_event :: "event \<Rightarrow> drm_gem_vram_object \<Rightarrow> drm_gem_vram_object" where
  "log_event e gbo = gbo\<lparr>klog := klog gbo @ [e]\<rparr>"

text \<open>\<^verbatim>\<open>drm_gem_vram_cleanup\<close>: two \<^verbatim>\<open>WARN_ON\<close>s, then the GEM object is released.\<close>

definition drm_gem_vram_cleanup :: "drm_gem_vram_object \<Rightarrow> drm_gem_vram_object" where
  "drm_gem_vram_cleanup gbo =
     (let g1 = (if kmap_use_count gbo \<noteq> 0 then log_event (Warn ''gbo->kmap_use_count'') gbo else gbo);
          g2 = (if virtual (kmap g1) \<noteq> None then log_event (Warn ''gbo->kmap.virtual'') g1 else g1)
      in log_event (Call ''drm_gem_object_release'') g2)"

text \<open>
  Writing entry \<open>i\<close> of the array \<^verbatim>\<open>placements[2]\<close>, and a loop over its first \<open>c\<close> entries.
\<close>

definition upd_place :: "nat \<Rightarrow> (ttm_place \<Rightarrow> ttm_place) \<Rightarrow> ttm_place list \<Rightarrow> ttm_place list" where
  "upd_place i f ps = (if i < length ps then ps[i := f (ps ! i)] else ps)"

definition for_places :: "nat \<Rightarrow> (ttm_place \<Rightarrow> ttm_place) \<Rightarrow> ttm_place list \<Rightarrow> ttm_place list" where
  "for_places c f ps = map f (take c ps) @ drop c ps"

definition drm_gem_vram_placement :: "drm_gem_vram_object \<Rightarrow> pl_flag set \<Rightarrow> drm_gem_vram_object" where
  "drm_gem_vram_placement gbo pl_flag =
     (let p0 = placements gbo;
          (p1, c1) = (if TTM_PL_FLAG_VRAM \<in> pl_flag
                      then (upd_place 0 (\<lambda>p. p\<lparr>flags := {TTM_PL_FLAG_WC, TTM_PL_FLAG_UNCACHED, TTM_PL_FLAG_VRAM}\<rparr>) p0, Suc 0)
                      else (p0, 0));
          (p2, c2) = (if TTM_PL_FLAG_SYSTEM \<in> pl_flag
                      then (upd_place c1 (\<lambda>p. p\<lparr>flags := TTM_PL_MASK_CACHING \<union> {TTM_PL_FLAG_SYSTEM}\<rparr>) p1, Suc c1)
                      else (p1, c1));
          (p3, c3) = (if c2 = 0
                      then (upd_place c2 (\<lambda>p. p\<lparr>flags := TTM_PL_MASK_CACHING \<union> {TTM_PL_FLAG_SYSTEM}\<rparr>) p2, Suc c2)
                      else (p2, c2))
      in gbo\<lparr>placement := \<lparr>num_placement = c3, placement_ref = gbo_placements,
                              num_busy_placement = c3, busy_placement_ref = gbo_placements\<rparr>,
              placements := for_places c3 (\<lambda>p. p\<lparr>fpfn := 0, lpfn := 0\<rparr>) p3\<rparr>)"

text \<open>
  The call \<^verbatim>\<open>ttm_bo_validate(&gbo->bo, &gbo->placement, &ctx)\<close>. TTM calls the driver's
  \<^verbatim>\<open>move_notify\<close> (which is \<open>drm_gem_vram_bo_driver_move_notify\<close> for these objects) when it
  moves the buffer.
\<close>

definition drm_gem_vram_bo_driver_move_notify :: "drm_gem_vram_object \<Rightarrow> bool \<Rightarrow> drm_gem_vram_object" where
  "drm_gem_vram_bo_driver_move_notify gbo evict =
     (if kmap_use_count gbo \<noteq> 0 then log_event (Warn ''gbo->kmap_use_count'') gbo
      else if virtual (kmap gbo) = None then gbo
      else (log_event (Call ''ttm_bo_kunmap'') gbo)\<lparr>kmap := (kmap gbo)\<lparr>virtual := None\<rparr>\<rparr>)"

definition call_ttm_bo_validate :: "ttm_env \<Rightarrow> drm_gem_vram_object \<Rightarrow> int \<times> drm_gem_vram_object" where
  "call_ttm_bo_validate E gbo =
     (let (ret, bo', moved) = ttm_bo_validate E gbo;
          g1 = log_event (Call ''ttm_bo_validate'') gbo;
          g2 = (case moved of None \<Rightarrow> g1 | Some evict \<Rightarrow> drm_gem_vram_bo_driver_move_notify g1 evict)
      in (ret, g2\<lparr>bo := bo'\<rparr>))"

text \<open>The two loops over \<^verbatim>\<open>gbo->placements[i].flags\<close> in pin and unpin.\<close>

definition set_no_evict :: "drm_gem_vram_object \<Rightarrow> drm_gem_vram_object" where
  "set_no_evict gbo =
     gbo\<lparr>placements := for_places (num_placement (placement gbo))
            (\<lambda>p. p\<lparr>flags := flags p \<union> {TTM_PL_FLAG_NO_EVICT}\<rparr>) (placements gbo)\<rparr>"

definition clear_no_evict :: "drm_gem_vram_object \<Rightarrow> drm_gem_vram_object" where
  "clear_no_evict gbo =
     gbo\<lparr>placements := for_places (num_placement (placement gbo))
            (\<lambda>p. p\<lparr>flags := flags p - {TTM_PL_FLAG_NO_EVICT}\<rparr>) (placements gbo)\<rparr>"

definition drm_gem_vram_pin_locked ::
  "ttm_env \<Rightarrow> drm_gem_vram_object \<Rightarrow> pl_flag set \<Rightarrow> int \<times> drm_gem_vram_object" where
  "drm_gem_vram_pin_locked E gbo pl_flag =
     (if pin_count gbo \<noteq> 0 then (0, gbo\<lparr>pin_count := pin_count gbo + 1\<rparr>)
      else
        let g1 = (if pl_flag \<noteq> {} then drm_gem_vram_placement gbo pl_flag else gbo);
            (ret, g2) = call_ttm_bo_validate E (set_no_evict g1)
        in if ret < 0 then (ret, g2)
           else (0, g2\<lparr>pin_count := pin_count g2 + 1\<rparr>))"

definition drm_gem_vram_pin ::
  "ttm_env \<Rightarrow> drm_gem_vram_object \<Rightarrow> pl_flag set \<Rightarrow> int \<times> drm_gem_vram_object" where
  "drm_gem_vram_pin E gbo pl_flag =
     (let ret = ttm_bo_reserve E (bo gbo) True False
      in if ret \<noteq> 0 then (ret, gbo) else drm_gem_vram_pin_locked E gbo pl_flag)"

definition drm_gem_vram_unpin_locked :: "ttm_env \<Rightarrow> drm_gem_vram_object \<Rightarrow> int \<times> drm_gem_vram_object" where
  "drm_gem_vram_unpin_locked E gbo =
     (if pin_count gbo = 0 then (0, log_event (Warn ''!gbo->pin_count'') gbo)
      else
        let g1 = gbo\<lparr>pin_count := pin_count gbo - 1\<rparr>
        in if pin_count g1 \<noteq> 0 then (0, g1)
           else
             let (ret, g2) = call_ttm_bo_validate E (clear_no_evict g1)
             in if ret < 0 then (ret, g2) else (0, g2))"

definition drm_gem_vram_unpin :: "ttm_env \<Rightarrow> drm_gem_vram_object \<Rightarrow> int \<times> drm_gem_vram_object" where
  "drm_gem_vram_unpin E gbo =
     (let ret = ttm_bo_reserve E (bo gbo) True False
      in if ret \<noteq> 0 then (ret, gbo) else drm_gem_vram_unpin_locked E gbo)"

text \<open>
  \<^verbatim>\<open>drm_gem_vram_kmap_locked(gbo, map, is_iomem)\<close>. The out-parameter \<open>is_iomem\<close> is \<open>None\<close>
  for a \<^verbatim>\<open>NULL\<close> pointer and \<open>Some c\<close> for a pointer to a \<^verbatim>\<open>bool\<close> whose content is \<open>c\<close>
  (\<open>None\<close>: never written); the content after the call is the third component of the
  result. \<open>kmap_out\<close> is the code from the label \<^verbatim>\<open>out:\<close> on.
\<close>

definition set_is_iomem :: "bool option option \<Rightarrow> bool \<Rightarrow> bool option option" where
  "set_is_iomem is_iomem v = (case is_iomem of None \<Rightarrow> None | Some c \<Rightarrow> Some (Some v))"

definition kmap_out ::
  "drm_gem_vram_object \<Rightarrow> bool option option \<Rightarrow> void_ptr \<times> drm_gem_vram_object \<times> bool option option" where
  "kmap_out gbo is_iomem =
     (if virtual (kmap gbo) = None then (Inr None, gbo, set_is_iomem is_iomem False)
      else
        let g1 = gbo\<lparr>kmap_use_count := kmap_use_count gbo + 1\<rparr>
        in if is_iomem \<noteq> None
           then (Inr (fst (ttm_kmap_obj_virtual (kmap g1))), g1,
                 set_is_iomem is_iomem (snd (ttm_kmap_obj_virtual (kmap g1))))
           else (Inr (virtual (kmap g1)), g1, is_iomem))"

definition drm_gem_vram_kmap_locked ::
  "ttm_env \<Rightarrow> drm_gem_vram_object \<Rightarrow> bool \<Rightarrow> bool option option
     \<Rightarrow> void_ptr \<times> drm_gem_vram_object \<times> bool option option" where
  "drm_gem_vram_kmap_locked E gbo map_it is_iomem =
     (if kmap_use_count gbo > 0 then kmap_out gbo is_iomem
      else if virtual (kmap gbo) \<noteq> None \<or> \<not> map_it then kmap_out gbo is_iomem
      else
        let (ret, k') = ttm_bo_kmap E (bo gbo) 0 (num_pages (bo gbo)) (kmap gbo);
            g1 = (log_event (Call ''ttm_bo_kmap'') gbo)\<lparr>kmap := k'\<rparr>
        in if ret \<noteq> 0 then (Inl ret, g1, is_iomem)
           else kmap_out g1 is_iomem)"

definition drm_gem_vram_kmap ::
  "ttm_env \<Rightarrow> drm_gem_vram_object \<Rightarrow> bool \<Rightarrow> bool option option
     \<Rightarrow> void_ptr \<times> drm_gem_vram_object \<times> bool option option" where
  "drm_gem_vram_kmap E gbo map_it is_iomem =
     (let ret = ttm_bo_reserve E (bo gbo) True False
      in if ret \<noteq> 0 then (Inl ret, gbo, is_iomem)
         else drm_gem_vram_kmap_locked E gbo map_it is_iomem)"

definition drm_gem_vram_kunmap_locked :: "drm_gem_vram_object \<Rightarrow> drm_gem_vram_object" where
  "drm_gem_vram_kunmap_locked gbo =
     (if kmap_use_count gbo = 0 then log_event (Warn ''!gbo->kmap_use_count'') gbo
      else
        let g1 = gbo\<lparr>kmap_use_count := kmap_use_count gbo - 1\<rparr>
        in if kmap_use_count g1 > 0 then g1 else g1)"

definition drm_gem_vram_kunmap :: "ttm_env \<Rightarrow> drm_gem_vram_object \<Rightarrow> drm_gem_vram_object" where
  "drm_gem_vram_kunmap E gbo =
     (let ret = ttm_bo_reserve E (bo gbo) False False
      in if ret \<noteq> 0 then log_event (Warn ''ttm_bo_reserve_failed()'') gbo
         else drm_gem_vram_kunmap_locked gbo)"

section \<open>PRIME helpers\<close>

definition drm_gem_vram_object_vmap :: "ttm_env \<Rightarrow> drm_gem_vram_object \<Rightarrow> void_ptr \<times> drm_gem_vram_object" where
  "drm_gem_vram_object_vmap E gbo =
     (let ret = ttm_bo_reserve E (bo gbo) True False
      in if ret \<noteq> 0 then (Inl ret, gbo)
         else
           let (ret, g1) = drm_gem_vram_pin_locked E gbo {}
           in if ret \<noteq> 0 then (Inl ret, g1)
              else
                let (base, g2, io) = drm_gem_vram_kmap_locked E g1 True None
                in case base of
                     Inl err \<Rightarrow> (Inl err, snd (drm_gem_vram_unpin_locked E g2))
                   | Inr p \<Rightarrow> (Inr p, g2))"

definition drm_gem_vram_object_vunmap ::
  "ttm_env \<Rightarrow> drm_gem_vram_object \<Rightarrow> addr option \<Rightarrow> drm_gem_vram_object" where
  "drm_gem_vram_object_vunmap E gbo vaddr =
     (let ret = ttm_bo_reserve E (bo gbo) False False
      in if ret \<noteq> 0 then log_event (Warn ''ttm_bo_reserve_failed()'') gbo
         else snd (drm_gem_vram_unpin_locked E (drm_gem_vram_kunmap_locked gbo)))"

section \<open>Creating objects and dumb buffers\<close>

text \<open>
  The allocation services, as parameters: the page size, whether \<^verbatim>\<open>kzalloc\<close> finds memory,
  and the answers of \<^verbatim>\<open>drm_gem_object_init\<close>, \<^verbatim>\<open>ttm_bo_init\<close> (return code and the TTM part
  of the new object) and \<^verbatim>\<open>drm_gem_handle_create\<close> (return code and handle). \<^verbatim>\<open>size_t\<close> and
  \<^verbatim>\<open>unsigned long\<close> are 64-bit words.
\<close>

record gem_env =
  PAGE_SIZE :: "64 word"
  kzalloc_ok :: bool
  drm_gem_object_init :: "64 word \<Rightarrow> int"
  ttm_bo_init :: "drm_gem_vram_object \<Rightarrow> 64 word \<Rightarrow> 64 word \<Rightarrow> bool \<Rightarrow> int \<times> ttm_buffer_object"
  drm_gem_handle_create :: "drm_gem_vram_object \<Rightarrow> int \<times> 32 word"

text \<open>The object as \<^verbatim>\<open>kzalloc\<close> returns it: every field zero.\<close>

definition gbo_zero :: drm_gem_vram_object where
  "gbo_zero =
     \<lparr>bo = \<lparr>mem_type = 0, offset = 0, num_pages = 0\<rparr>,
      kmap = \<lparr>virtual = None, bo_kmap_iomem = False\<rparr>,
      kmap_use_count = 0,
      placement = \<lparr>num_placement = 0, placement_ref = NULL_places,
                   num_busy_placement = 0, busy_placement_ref = NULL_places\<rparr>,
      placements = [\<lparr>fpfn = 0, lpfn = 0, flags = {}\<rparr>, \<lparr>fpfn = 0, lpfn = 0, flags = {}\<rparr>],
      pin_count = 0,
      klog = []\<rparr>"

definition drm_gem_vram_init ::
  "gem_env \<Rightarrow> drm_gem_vram_object \<Rightarrow> 64 word \<Rightarrow> 64 word \<Rightarrow> bool \<Rightarrow> int \<times> drm_gem_vram_object" where
  "drm_gem_vram_init G gbo sz pg_align interruptible =
     (let ret = drm_gem_object_init G sz
      in if ret \<noteq> 0 then (ret, gbo)
         else
           let g1 = drm_gem_vram_placement gbo {TTM_PL_FLAG_VRAM, TTM_PL_FLAG_SYSTEM};
               (ret, bo') = ttm_bo_init G g1 sz pg_align interruptible
           in if ret \<noteq> 0 then (ret, log_event (Call ''drm_gem_object_release'') g1)
              else (0, g1\<lparr>bo := bo'\<rparr>))"

definition drm_gem_vram_create ::
  "gem_env \<Rightarrow> 64 word \<Rightarrow> 64 word \<Rightarrow> bool \<Rightarrow> int + drm_gem_vram_object" where
  "drm_gem_vram_create G sz pg_align interruptible =
     (if \<not> kzalloc_ok G then Inl (- ENOMEM)
      else
        let (ret, gbo) = drm_gem_vram_init G gbo_zero sz pg_align interruptible
        in if ret < 0 then Inl ret else Inr gbo)"

text \<open>
  \<^verbatim>\<open>struct drm_mode_create_dumb\<close> (the DRM user API): \<open>height\<close>, \<open>width\<close>, \<open>bpp\<close>, \<open>handle\<close> and
  \<open>pitch\<close> are 32-bit, \<open>size\<close> is 64-bit (here \<open>size_u64\<close>). The product
  \<^verbatim>\<open>args->width * ((args->bpp + 7) / 8)\<close> is computed in 32 bits and then widened to the
  \<^verbatim>\<open>size_t\<close> variable \<open>pitch\<close>; \<^verbatim>\<open>pitch * args->height\<close> and \<^verbatim>\<open>roundup\<close> are computed in
  \<^verbatim>\<open>size_t\<close>.
\<close>

record drm_mode_create_dumb =
  height :: "32 word"
  width :: "32 word"
  bpp :: "32 word"
  handle :: "32 word"
  pitch :: "32 word"
  size_u64 :: "64 word"

definition roundup :: "64 word \<Rightarrow> 64 word \<Rightarrow> 64 word" where
  "roundup x y = ((x + (y - 1)) div y) * y"

definition dumb_pitch :: "drm_mode_create_dumb \<Rightarrow> 64 word" where
  "dumb_pitch args = ucast (width args * ((bpp args + 7) div 8))"

definition dumb_size :: "gem_env \<Rightarrow> drm_mode_create_dumb \<Rightarrow> 64 word" where
  "dumb_size G args = roundup (dumb_pitch args * ucast (height args)) (PAGE_SIZE G)"

definition drm_gem_vram_fill_create_dumb ::
  "gem_env \<Rightarrow> 64 word \<Rightarrow> bool \<Rightarrow> drm_mode_create_dumb \<Rightarrow> int \<times> drm_mode_create_dumb" where
  "drm_gem_vram_fill_create_dumb G pg_align interruptible args =
     (let pitch_v = dumb_pitch args;
          size_v = dumb_size G args
      in if size_v = 0 then (- EINVAL, args)
         else
           case drm_gem_vram_create G size_v pg_align interruptible of
             Inl err \<Rightarrow> (err, args)
           | Inr gbo \<Rightarrow>
               let (ret, h) = drm_gem_handle_create G gbo
               in if ret \<noteq> 0 then (ret, args)
                  else (0, args\<lparr>pitch := ucast pitch_v, size_u64 := size_v, handle := h\<rparr>))"

section \<open>Sequences of operations on one object\<close>

text \<open>
  The operations a client (or TTM, for \<open>Move_notify\<close>) performs on one buffer object. In a
  sequence every operation comes with the answers TTM gives during that call.
\<close>

datatype op =
    Pin "pl_flag set"
  | Unpin
  | Kmap bool "bool option option"
  | Kunmap
  | Move_notify bool
  | Vmap
  | Vunmap "addr option"

fun step :: "ttm_env \<Rightarrow> op \<Rightarrow> drm_gem_vram_object \<Rightarrow> drm_gem_vram_object" where
  "step E (Pin pl_flag) gbo = snd (drm_gem_vram_pin E gbo pl_flag)"
| "step E Unpin gbo = snd (drm_gem_vram_unpin E gbo)"
| "step E (Kmap map_it is_iomem) gbo = fst (snd (drm_gem_vram_kmap E gbo map_it is_iomem))"
| "step E Kunmap gbo = drm_gem_vram_kunmap E gbo"
| "step E (Move_notify evict) gbo = drm_gem_vram_bo_driver_move_notify gbo evict"
| "step E Vmap gbo = snd (drm_gem_vram_object_vmap E gbo)"
| "step E (Vunmap vaddr) gbo = drm_gem_vram_object_vunmap E gbo vaddr"

fun run :: "(ttm_env \<times> op) list \<Rightarrow> drm_gem_vram_object \<Rightarrow> drm_gem_vram_object" where
  "run [] gbo = gbo"
| "run ((E, x) # xs) gbo = run xs (step E x gbo)"

text \<open>The invariant of the mapping cache, and the one of the pin count.\<close>

definition kmap_inv :: "drm_gem_vram_object \<Rightarrow> bool" where
  "kmap_inv gbo = (kmap_use_count gbo > 0 \<longrightarrow> virtual (kmap gbo) \<noteq> None)"

definition pin_inv :: "drm_gem_vram_object \<Rightarrow> bool" where
  "pin_inv gbo = (0 \<le> pin_count gbo)"

section \<open>Concrete environments and objects\<close>

text \<open>
  A TTM that grants every request without moving the buffer and maps it at address 4096,
  one that is out of memory, one that validates but cannot map, one that moves the buffer
  at every validation, an allocator with 4096-byte pages that never fails, an idle object
  that still holds a mapping, the object that this allocator creates for one page, the same
  allocator with a handle table that is full, and two argument blocks for dumb-buffer
  creation.
\<close>

definition ttm_ok :: ttm_env where
  "ttm_ok =
     \<lparr>ttm_bo_reserve = (\<lambda>b i n. 0),
      ttm_bo_validate = (\<lambda>g. (0, bo g, None)),
      ttm_bo_kmap = (\<lambda>b s n m. (0, \<lparr>virtual = Some 4096, bo_kmap_iomem = False\<rparr>))\<rparr>"

definition ttm_nomem :: ttm_env where
  "ttm_nomem =
     \<lparr>ttm_bo_reserve = (\<lambda>b i n. 0),
      ttm_bo_validate = (\<lambda>g. (- ENOMEM, bo g, None)),
      ttm_bo_kmap = (\<lambda>b s n m. (- ENOMEM, m\<lparr>virtual := None\<rparr>))\<rparr>"

definition ttm_moving :: ttm_env where
  "ttm_moving =
     \<lparr>ttm_bo_reserve = (\<lambda>b i n. 0),
      ttm_bo_validate = (\<lambda>g. (0, (bo g)\<lparr>mem_type := 2\<rparr>, Some False)),
      ttm_bo_kmap = (\<lambda>b s n m. (0, \<lparr>virtual = Some 8192, bo_kmap_iomem = True\<rparr>))\<rparr>"

definition gem_ok :: gem_env where
  "gem_ok =
     \<lparr>PAGE_SIZE = 4096,
      kzalloc_ok = True,
      drm_gem_object_init = (\<lambda>sz. 0),
      ttm_bo_init = (\<lambda>g sz al i. (0, \<lparr>mem_type = 0, offset = 0, num_pages = unat (sz div 4096)\<rparr>)),
      drm_gem_handle_create = (\<lambda>g. (0, 1))\<rparr>"

definition gbo_stale :: drm_gem_vram_object where
  "gbo_stale = gbo_zero\<lparr>kmap := \<lparr>virtual = Some 4096, bo_kmap_iomem = False\<rparr>\<rparr>"

definition gbo_new :: drm_gem_vram_object where
  "gbo_new =
     \<lparr>bo = \<lparr>mem_type = 0, offset = 0, num_pages = 1\<rparr>,
      kmap = \<lparr>virtual = None, bo_kmap_iomem = False\<rparr>,
      kmap_use_count = 0,
      placement = \<lparr>num_placement = 2, placement_ref = gbo_placements,
                   num_busy_placement = 2, busy_placement_ref = gbo_placements\<rparr>,
      placements =
        [\<lparr>fpfn = 0, lpfn = 0, flags = {TTM_PL_FLAG_WC, TTM_PL_FLAG_UNCACHED, TTM_PL_FLAG_VRAM}\<rparr>,
         \<lparr>fpfn = 0, lpfn = 0,
          flags = {TTM_PL_FLAG_CACHED, TTM_PL_FLAG_UNCACHED, TTM_PL_FLAG_WC, TTM_PL_FLAG_SYSTEM}\<rparr>],
      pin_count = 0,
      klog = []\<rparr>"

definition ttm_nomap :: ttm_env where
  "ttm_nomap =
     \<lparr>ttm_bo_reserve = (\<lambda>b i n. 0),
      ttm_bo_validate = (\<lambda>g. (0, bo g, None)),
      ttm_bo_kmap = (\<lambda>b s n m. (- ENOMEM, m\<lparr>virtual := None\<rparr>))\<rparr>"

definition gem_nohandle :: gem_env where
  "gem_nohandle = gem_ok\<lparr>drm_gem_handle_create := (\<lambda>g. (- ENOMEM, 0))\<rparr>"

definition dumb_args_example :: drm_mode_create_dumb where
  "dumb_args_example = \<lparr>height = 50, width = 100, bpp = 32, handle = 0, pitch = 0, size_u64 = 0\<rparr>"

definition dumb_args_overflow :: drm_mode_create_dumb where
  "dumb_args_overflow = \<lparr>height = 1, width = 2147483648, bpp = 16, handle = 0, pitch = 0, size_u64 = 0\<rparr>"

section \<open>Basic facts\<close>

lemma log_event_simps [simp]:
  "klog (log_event e g) = klog g @ [e]"
  "pin_count (log_event e g) = pin_count g"
  "kmap_use_count (log_event e g) = kmap_use_count g"
  "kmap (log_event e g) = kmap g"
  "bo (log_event e g) = bo g"
  "placement (log_event e g) = placement g"
  "placements (log_event e g) = placements g"
  by (simp_all add: log_event_def)

lemma move_notify_counts [simp]:
  "pin_count (drm_gem_vram_bo_driver_move_notify g ev) = pin_count g"
  "kmap_use_count (drm_gem_vram_bo_driver_move_notify g ev) = kmap_use_count g"
  "bo (drm_gem_vram_bo_driver_move_notify g ev) = bo g"
  "placement (drm_gem_vram_bo_driver_move_notify g ev) = placement g"
  "placements (drm_gem_vram_bo_driver_move_notify g ev) = placements g"
  by (simp_all add: drm_gem_vram_bo_driver_move_notify_def)

lemma move_notify_kmap_inv: "kmap_inv g \<Longrightarrow> kmap_inv (drm_gem_vram_bo_driver_move_notify g ev)"
  by (simp add: kmap_inv_def drm_gem_vram_bo_driver_move_notify_def)

lemma validate_counts [simp]:
  "pin_count (snd (call_ttm_bo_validate E g)) = pin_count g"
  "kmap_use_count (snd (call_ttm_bo_validate E g)) = kmap_use_count g"
  by (simp_all add: call_ttm_bo_validate_def Let_def split: prod.splits option.splits)

lemma validate_fst: "fst (call_ttm_bo_validate E g) = fst (ttm_bo_validate E g)"
  by (simp add: call_ttm_bo_validate_def Let_def split: prod.splits)

lemma validate_kmap_inv: "kmap_inv g \<Longrightarrow> kmap_inv (snd (call_ttm_bo_validate E g))"
proof -
  assume inv: "kmap_inv g"
  have a: "kmap_inv (log_event e g)" for e
    using inv by (simp add: kmap_inv_def)
  have b: "kmap_inv h \<Longrightarrow> kmap_inv (h\<lparr>bo := b\<rparr>)" for h b
    by (simp add: kmap_inv_def)
  show ?thesis
    by (auto simp: call_ttm_bo_validate_def Let_def split: prod.splits option.splits
        intro!: b a move_notify_kmap_inv)
qed

lemma no_evict_counts [simp]:
  "pin_count (set_no_evict g) = pin_count g"
  "kmap_use_count (set_no_evict g) = kmap_use_count g"
  "kmap (set_no_evict g) = kmap g"
  "pin_count (clear_no_evict g) = pin_count g"
  "kmap_use_count (clear_no_evict g) = kmap_use_count g"
  "kmap (clear_no_evict g) = kmap g"
  by (simp_all add: set_no_evict_def clear_no_evict_def)

lemma placement_counts [simp]:
  "pin_count (drm_gem_vram_placement g fl) = pin_count g"
  "kmap_use_count (drm_gem_vram_placement g fl) = kmap_use_count g"
  "kmap (drm_gem_vram_placement g fl) = kmap g"
  "klog (drm_gem_vram_placement g fl) = klog g"
  by (simp_all add: drm_gem_vram_placement_def Let_def split: prod.splits)


lemma pin_locked_use_count [simp]:
  "kmap_use_count (snd (drm_gem_vram_pin_locked E g fl)) = kmap_use_count g"
  by (simp add: drm_gem_vram_pin_locked_def Let_def case_prod_beta)

lemma pin_locked_kmap_inv: "kmap_inv g \<Longrightarrow> kmap_inv (snd (drm_gem_vram_pin_locked E g fl))"
proof -
  assume inv: "kmap_inv g"
  have a: "kmap_inv (h\<lparr>pin_count := n\<rparr>) = kmap_inv h" for h n
    by (simp add: kmap_inv_def)
  have b: "kmap_inv (set_no_evict (if fl \<noteq> {} then drm_gem_vram_placement g fl else g))"
    using inv by (simp add: kmap_inv_def)
  show ?thesis
    using inv validate_kmap_inv [OF b, of E]
    by (simp add: drm_gem_vram_pin_locked_def Let_def a case_prod_beta)
qed

lemma unpin_locked_use_count [simp]:
  "kmap_use_count (snd (drm_gem_vram_unpin_locked E g)) = kmap_use_count g"
  by (simp add: drm_gem_vram_unpin_locked_def Let_def case_prod_beta)

lemma unpin_locked_kmap_inv: "kmap_inv g \<Longrightarrow> kmap_inv (snd (drm_gem_vram_unpin_locked E g))"
proof -
  assume inv: "kmap_inv g"
  have b: "kmap_inv (snd (call_ttm_bo_validate E (clear_no_evict (g\<lparr>pin_count := n\<rparr>))))" for n
    using inv by (intro validate_kmap_inv) (simp add: kmap_inv_def)
  have c: "kmap_inv (h\<lparr>pin_count := n\<rparr>) = kmap_inv h" "kmap_inv (log_event e h) = kmap_inv h" for h n e
    by (simp_all add: kmap_inv_def)
  show ?thesis
    using inv by (simp add: drm_gem_vram_unpin_locked_def Let_def b c case_prod_beta)
qed

lemma pin_locked_pin_count:
  "pin_count (snd (drm_gem_vram_pin_locked E g fl)) =
     (if pin_count g = 0 \<and> fst (drm_gem_vram_pin_locked E g fl) < 0 then 0 else pin_count g + 1)"
  by (simp add: drm_gem_vram_pin_locked_def Let_def case_prod_beta)

lemma pin_locked_ret: "fst (drm_gem_vram_pin_locked E g fl) \<le> 0"
  by (simp add: drm_gem_vram_pin_locked_def Let_def case_prod_beta)

lemma unpin_locked_pin_count:
  "pin_count (snd (drm_gem_vram_unpin_locked E g)) = (if pin_count g = 0 then 0 else pin_count g - 1)"
  by (simp add: drm_gem_vram_unpin_locked_def Let_def case_prod_beta)

lemma kmap_out_kmap_inv: "kmap_use_count g = 0 \<or> kmap_inv g \<Longrightarrow> kmap_inv (fst (snd (kmap_out g io)))"
  by (auto simp: kmap_out_def kmap_inv_def Let_def)

lemma kmap_out_pin_count [simp]: "pin_count (fst (snd (kmap_out g io))) = pin_count g"
  by (simp add: kmap_out_def Let_def)

lemma kmap_locked_kmap_inv: "kmap_inv g \<Longrightarrow> kmap_inv (fst (snd (drm_gem_vram_kmap_locked E g m io)))"
proof -
  assume inv: "kmap_inv g"
  have a: "kmap_inv (fst (snd (kmap_out g io)))"
    using inv by (rule kmap_out_kmap_inv [OF disjI2])
  have b: "kmap_use_count g = 0 \<Longrightarrow> kmap_inv (fst (snd (kmap_out ((log_event e g)\<lparr>kmap := k\<rparr>) io)))" for e k
    by (rule kmap_out_kmap_inv [OF disjI1]) simp
  have c: "kmap_use_count g = 0 \<Longrightarrow> kmap_inv ((log_event e g)\<lparr>kmap := k\<rparr>)" for e k
    by (simp add: kmap_inv_def)
  show ?thesis
    by (simp add: drm_gem_vram_kmap_locked_def Let_def case_prod_beta a b c)
qed

lemma kmap_locked_pin_count [simp]:
  "pin_count (fst (snd (drm_gem_vram_kmap_locked E g m io))) = pin_count g"
  by (simp add: drm_gem_vram_kmap_locked_def Let_def case_prod_beta)

lemma kunmap_locked_kmap_inv: "kmap_inv g \<Longrightarrow> kmap_inv (drm_gem_vram_kunmap_locked g)"
  by (simp add: drm_gem_vram_kunmap_locked_def kmap_inv_def Let_def)

lemma kunmap_locked_pin_count [simp]: "pin_count (drm_gem_vram_kunmap_locked g) = pin_count g"
  by (simp add: drm_gem_vram_kunmap_locked_def Let_def)

lemma vmap_kmap_inv: "kmap_inv g \<Longrightarrow> kmap_inv (snd (drm_gem_vram_object_vmap E g))"
proof -
  assume inv: "kmap_inv g"
  let ?g1 = "snd (drm_gem_vram_pin_locked E g {})"
  let ?g2 = "fst (snd (drm_gem_vram_kmap_locked E ?g1 True None))"
  have a: "kmap_inv ?g1" using inv by (rule pin_locked_kmap_inv)
  have b: "kmap_inv ?g2" using a by (rule kmap_locked_kmap_inv)
  have c: "kmap_inv (snd (drm_gem_vram_unpin_locked E ?g2))" using b by (rule unpin_locked_kmap_inv)
  show ?thesis
    using inv a b c
    by (simp add: drm_gem_vram_object_vmap_def Let_def case_prod_beta split: sum.splits)
qed

lemma step_kmap_inv: "kmap_inv g \<Longrightarrow> kmap_inv (step E x g)"
proof (cases x)
  case (Pin fl)
  assume "kmap_inv g"
  then show ?thesis using Pin by (simp add: drm_gem_vram_pin_def Let_def pin_locked_kmap_inv)
next
  case Unpin
  assume "kmap_inv g"
  then show ?thesis using Unpin by (simp add: drm_gem_vram_unpin_def Let_def unpin_locked_kmap_inv)
next
  case (Kmap m io)
  assume "kmap_inv g"
  then show ?thesis using Kmap by (simp add: drm_gem_vram_kmap_def Let_def kmap_locked_kmap_inv)
next
  case Kunmap
  assume inv: "kmap_inv g"
  have "kmap_inv (log_event e g)" for e using inv by (simp add: kmap_inv_def)
  then show ?thesis using Kunmap inv by (simp add: drm_gem_vram_kunmap_def Let_def kunmap_locked_kmap_inv)
next
  case (Move_notify ev)
  assume "kmap_inv g"
  then show ?thesis using Move_notify by (simp add: move_notify_kmap_inv)
next
  case Vmap
  assume "kmap_inv g"
  then show ?thesis using Vmap by (simp add: vmap_kmap_inv)
next
  case (Vunmap v)
  assume inv: "kmap_inv g"
  have "kmap_inv (log_event e g)" for e using inv by (simp add: kmap_inv_def)
  then show ?thesis using Vunmap inv
    by (simp add: drm_gem_vram_object_vunmap_def Let_def unpin_locked_kmap_inv kunmap_locked_kmap_inv)
qed

lemma vmap_pin_count_ge: "0 \<le> pin_count g \<Longrightarrow> 0 \<le> pin_count (snd (drm_gem_vram_object_vmap E g))"
  by (simp add: drm_gem_vram_object_vmap_def Let_def case_prod_beta
      pin_locked_pin_count unpin_locked_pin_count split: sum.splits)

lemma step_pin_inv: "pin_inv g \<Longrightarrow> pin_inv (step E x g)"
  by (cases x)
     (simp_all add: pin_inv_def drm_gem_vram_pin_def drm_gem_vram_unpin_def drm_gem_vram_kmap_def
        drm_gem_vram_kunmap_def drm_gem_vram_object_vunmap_def Let_def
        pin_locked_pin_count unpin_locked_pin_count vmap_pin_count_ge)

lemma created_fields:
  "drm_gem_vram_create G sz al i = Inr g \<Longrightarrow>
     pin_count g = 0 \<and> kmap_use_count g = 0 \<and> virtual (kmap g) = None"
  by (auto simp: drm_gem_vram_create_def drm_gem_vram_init_def Let_def gbo_zero_def
      case_prod_beta split: if_splits)

lemma validate_kmap_quiet:
  "snd (snd (ttm_bo_validate E g)) = None \<Longrightarrow> kmap (snd (call_ttm_bo_validate E g)) = kmap g"
  by (simp add: call_ttm_bo_validate_def Let_def case_prod_beta)

lemma pin_locked_kmap_quiet:
  "\<forall>g. snd (snd (ttm_bo_validate E g)) = None \<Longrightarrow> kmap (snd (drm_gem_vram_pin_locked E g fl)) = kmap g"
  by (simp add: drm_gem_vram_pin_locked_def Let_def case_prod_beta validate_kmap_quiet)

lemma unpin_locked_kmap_quiet:
  "\<forall>g. snd (snd (ttm_bo_validate E g)) = None \<Longrightarrow> kmap (snd (drm_gem_vram_unpin_locked E g)) = kmap g"
  by (simp add: drm_gem_vram_unpin_locked_def Let_def case_prod_beta validate_kmap_quiet)

lemma kmap_out_keeps [simp]: "kmap (fst (snd (kmap_out g io))) = kmap g"
  by (simp add: kmap_out_def Let_def)

lemma kmap_locked_keeps:
  "virtual (kmap g) = Some v \<Longrightarrow> kmap (fst (snd (drm_gem_vram_kmap_locked E g m io))) = kmap g"
  by (simp add: drm_gem_vram_kmap_locked_def Let_def case_prod_beta)

lemma kunmap_locked_kmap [simp]: "kmap (drm_gem_vram_kunmap_locked g) = kmap g"
  by (simp add: drm_gem_vram_kunmap_locked_def Let_def)

lemma kunmap_kmap [simp]: "kmap (drm_gem_vram_kunmap E g) = kmap g"
  by (simp add: drm_gem_vram_kunmap_def Let_def)

lemma vmap_kmap_quiet:
  assumes q: "\<forall>g. snd (snd (ttm_bo_validate E g)) = None" and v: "virtual (kmap g) = Some v"
  shows "kmap (snd (drm_gem_vram_object_vmap E g)) = kmap g"
proof -
  let ?g1 = "snd (drm_gem_vram_pin_locked E g {})"
  let ?g2 = "fst (snd (drm_gem_vram_kmap_locked E ?g1 True None))"
  have a: "kmap ?g1 = kmap g" using q by (rule pin_locked_kmap_quiet)
  have b: "kmap ?g2 = kmap g" using kmap_locked_keeps [of ?g1 v E True None] a v by simp
  have c: "kmap (snd (drm_gem_vram_unpin_locked E ?g2)) = kmap g"
    using unpin_locked_kmap_quiet [OF q, of ?g2] b by simp
  show ?thesis
    using a b c by (simp add: drm_gem_vram_object_vmap_def Let_def case_prod_beta split: sum.splits)
qed

lemma step_keeps_mapping:
  assumes "\<forall>ev. x \<noteq> Move_notify ev" and q: "\<forall>g. snd (snd (ttm_bo_validate E g)) = None"
    and v: "virtual (kmap g) = Some v"
  shows "kmap (step E x g) = kmap g"
proof (cases x)
  case (Pin fl)
  then show ?thesis using pin_locked_kmap_quiet [OF q] by (simp add: drm_gem_vram_pin_def Let_def)
next
  case Unpin
  then show ?thesis using unpin_locked_kmap_quiet [OF q] by (simp add: drm_gem_vram_unpin_def Let_def)
next
  case (Kmap m io)
  then show ?thesis using kmap_locked_keeps [OF v] by (simp add: drm_gem_vram_kmap_def Let_def)
next
  case Kunmap
  then show ?thesis by simp
next
  case (Move_notify ev)
  then show ?thesis using assms(1) by simp
next
  case Vmap
  then show ?thesis using vmap_kmap_quiet [OF q v] by simp
next
  case (Vunmap a)
  then show ?thesis using unpin_locked_kmap_quiet [OF q]
    by (simp add: drm_gem_vram_object_vunmap_def Let_def)
qed

lemma run_kmap_inv: "kmap_inv g \<Longrightarrow> kmap_inv (run ops g)"
proof (induction ops arbitrary: g)
  case Nil
  then show ?case by simp
next
  case (Cons a ops)
  obtain E x where a: "a = (E, x)" by (cases a)
  have "kmap_inv (step E x g)" using Cons.prems by (rule step_kmap_inv)
  then have "kmap_inv (run ops (step E x g))" by (rule Cons.IH)
  then show ?case using a by simp
qed

lemma run_pin_inv: "pin_inv g \<Longrightarrow> pin_inv (run ops g)"
proof (induction ops arbitrary: g)
  case Nil
  then show ?case by simp
next
  case (Cons a ops)
  obtain E x where a: "a = (E, x)" by (cases a)
  have "pin_inv (step E x g)" using Cons.prems by (rule step_pin_inv)
  then have "pin_inv (run ops (step E x g))" by (rule Cons.IH)
  then show ?case using a by simp
qed

lemma gbo_new_created: "drm_gem_vram_create gem_ok 4096 0 False = Inr gbo_new"
  by (simp add: drm_gem_vram_create_def drm_gem_vram_init_def gem_ok_def gbo_zero_def gbo_new_def
      drm_gem_vram_placement_def upd_place_def for_places_def Let_def TTM_PL_MASK_CACHING_def
      insert_commute)

lemma kmap_out_use_count:
  "kmap_use_count (fst (snd (kmap_out g io))) =
     (case fst (kmap_out g io) of Inr (Some a) \<Rightarrow> kmap_use_count g + 1 | _ \<Rightarrow> kmap_use_count g)"
  by (simp add: kmap_out_def Let_def ttm_kmap_obj_virtual_def split: option.splits)

lemma kmap_locked_use_count:
  "kmap_use_count (fst (snd (drm_gem_vram_kmap_locked E g m io))) =
     (case fst (drm_gem_vram_kmap_locked E g m io) of
        Inr (Some a) \<Rightarrow> kmap_use_count g + 1 | _ \<Rightarrow> kmap_use_count g)"
  by (simp add: drm_gem_vram_kmap_locked_def Let_def case_prod_beta kmap_out_use_count
      split: sum.splits option.splits)

lemma vmap_cases:
  "drm_gem_vram_object_vmap E g =
     (if ttm_bo_reserve E (bo g) True False \<noteq> 0 then (Inl (ttm_bo_reserve E (bo g) True False), g)
      else if fst (drm_gem_vram_pin_locked E g {}) \<noteq> 0
        then (Inl (fst (drm_gem_vram_pin_locked E g {})), snd (drm_gem_vram_pin_locked E g {}))
      else case fst (drm_gem_vram_kmap_locked E (snd (drm_gem_vram_pin_locked E g {})) True None) of
             Inl err \<Rightarrow> (Inl err, snd (drm_gem_vram_unpin_locked E
                 (fst (snd (drm_gem_vram_kmap_locked E (snd (drm_gem_vram_pin_locked E g {})) True None)))))
           | Inr p \<Rightarrow> (Inr p, fst (snd (drm_gem_vram_kmap_locked E (snd (drm_gem_vram_pin_locked E g {})) True None))))"
  by (simp add: drm_gem_vram_object_vmap_def Let_def case_prod_beta)

lemma vmap_success_counts:
  assumes "drm_gem_vram_object_vmap E g = (Inr (Some a), g')"
  shows "pin_count g' = pin_count g + 1 \<and> kmap_use_count g' = kmap_use_count g + 1"
proof -
  let ?g1 = "snd (drm_gem_vram_pin_locked E g {})"
  let ?k = "drm_gem_vram_kmap_locked E ?g1 True None"
  from assms have r: "ttm_bo_reserve E (bo g) True False = 0"
    by (simp add: vmap_cases split: if_splits)
  from assms r have p: "fst (drm_gem_vram_pin_locked E g {}) = 0"
    by (simp add: vmap_cases split: if_splits)
  from assms r p have k: "fst ?k = Inr (Some a)" and g': "g' = fst (snd ?k)"
    by (auto simp: vmap_cases split: sum.splits)
  have "pin_count ?g1 = pin_count g + 1"
    using p by (simp add: pin_locked_pin_count)
  moreover have "kmap_use_count (fst (snd ?k)) = kmap_use_count ?g1 + 1"
    using k by (simp add: kmap_locked_use_count)
  ultimately show ?thesis using g' by simp
qed

lemma vmap_error_counts:
  assumes "0 \<le> pin_count g" and "fst (drm_gem_vram_object_vmap E g) = Inl err"
  shows "pin_count (snd (drm_gem_vram_object_vmap E g)) = pin_count g
       \<and> kmap_use_count (snd (drm_gem_vram_object_vmap E g)) = kmap_use_count g"
proof -
  let ?p = "drm_gem_vram_pin_locked E g {}"
  let ?k = "drm_gem_vram_kmap_locked E (snd ?p) True None"
  show ?thesis
  proof (cases "ttm_bo_reserve E (bo g) True False \<noteq> 0")
    case True
    then show ?thesis by (simp add: vmap_cases)
  next
    case r: False
    show ?thesis
    proof (cases "fst ?p \<noteq> 0")
      case True
      moreover have "fst ?p \<le> 0" by (rule pin_locked_ret)
      ultimately have "fst ?p < 0" by simp
      moreover have "pin_count g = 0"
        using \<open>fst ?p < 0\<close> by (simp add: drm_gem_vram_pin_locked_def Let_def case_prod_beta split: if_splits)
      ultimately show ?thesis using r True by (simp add: vmap_cases pin_locked_pin_count)
    next
      case p: False
      from assms(2) r p obtain e where k: "fst ?k = Inl e"
        by (auto simp: vmap_cases split: sum.splits)
      have "pin_count (snd ?p) = pin_count g + 1"
        using p by (simp add: pin_locked_pin_count)
      moreover have "kmap_use_count (fst (snd ?k)) = kmap_use_count g"
        using k by (simp add: kmap_locked_use_count)
      ultimately show ?thesis
        using r p k assms(1) by (simp add: vmap_cases unpin_locked_pin_count)
    qed
  qed
qed

section \<open>Facts about the dumb-buffer arithmetic\<close>

lemma unat_ucast_32_64: "unat (ucast (w :: 32 word) :: 64 word) = unat w"
proof -
  have "unat w < 2 ^ 32"
    using unsigned_less [of w, where 'a = nat] by simp
  then have "unat w < 2 ^ 64" by simp
  then have "take_bit 64 (unat w) = unat w" by (simp only: take_bit_nat_eq_self)
  then show ?thesis by (simp add: unsigned_ucast_eq)
qed

lemma dumb_pitch_unat:
  assumes "unat (bpp args) + 7 < 2 ^ 32"
    and "unat (width args) * ((unat (bpp args) + 7) div 8) < 2 ^ 32"
  shows "unat (dumb_pitch args) = unat (width args) * ((unat (bpp args) + 7) div 8)"
proof -
  have a: "unat (bpp args + 7) = unat (bpp args) + 7"
    using assms(1) by (simp add: unat_word_ariths)
  have b: "unat ((bpp args + 7) div 8) = (unat (bpp args) + 7) div 8"
    using a by (simp add: unat_div)
  have c: "unat (width args * ((bpp args + 7) div 8)) = unat (width args) * ((unat (bpp args) + 7) div 8)"
    using assms(2) b by (simp add: unat_word_ariths)
  show ?thesis
    using c by (simp add: dumb_pitch_def unat_ucast_32_64)
qed

lemma dumb_pitch_bound: "unat (dumb_pitch args) < 2 ^ 32"
  using unsigned_less [of "width args * ((bpp args + 7) div 8)", where 'a = nat]
  by (simp add: dumb_pitch_def unat_ucast_32_64)

lemma dumb_pitch_mod:
  "unat (dumb_pitch args) = (unat (width args) * (((unat (bpp args) + 7) mod 2 ^ 32) div 8)) mod 2 ^ 32"
  by (simp add: dumb_pitch_def unat_ucast_32_64 unat_word_ariths unat_div)

lemma roundup_unat:
  assumes "0 < unat y" and "unat x + unat y \<le> 2 ^ 64"
  shows "unat (roundup x y) = ((unat x + (unat y - 1)) div unat y) * unat y"
proof -
  have y1: "unat (y - 1) = unat y - 1"
    using assms(1) unat_minus_one [of y] by (simp add: unat_gt_0)
  have s: "unat (x + (y - 1)) = unat x + (unat y - 1)"
    using assms y1 by (simp add: unat_word_ariths)
  have d: "unat ((x + (y - 1)) div y) = (unat x + (unat y - 1)) div unat y"
    using s by (simp add: unat_div)
  have le: "((unat x + (unat y - 1)) div unat y) * unat y \<le> unat x + (unat y - 1)"
    by (rule div_times_less_eq_dividend)
  have "unat x + (unat y - 1) < 2 ^ 64"
    using assms by linarith
  then have "((unat x + (unat y - 1)) div unat y) * unat y < 2 ^ 64"
    using le by linarith
  then show ?thesis
    using d by (simp add: roundup_def unat_word_ariths)
qed

lemma dumb_size_unat:
  assumes "0 < unat (PAGE_SIZE G)" and "unat (PAGE_SIZE G) \<le> 2 ^ 32"
  shows "unat (dumb_size G args) =
     ((unat (dumb_pitch args) * unat (height args) + (unat (PAGE_SIZE G) - 1)) div unat (PAGE_SIZE G))
       * unat (PAGE_SIZE G)"
proof -
  have h: "unat (height args) < 2 ^ 32"
    using unsigned_less [of "height args", where 'a = nat] by simp
  have p: "unat (dumb_pitch args) < 2 ^ 32" by (rule dumb_pitch_bound)
  have "unat (dumb_pitch args) * unat (height args) \<le> (2 ^ 32 - 1) * (2 ^ 32 - 1)"
    using h p by (intro mult_mono) simp_all
  then have m: "unat (dumb_pitch args) * unat (height args) \<le> 2 ^ 64 - 2 ^ 33 + 1" by simp
  have u: "unat (ucast (height args) :: 64 word) = unat (height args)"
    by (rule unat_ucast_32_64)
  have pr: "unat (dumb_pitch args * ucast (height args)) = unat (dumb_pitch args) * unat (height args)"
    using m u by (simp add: unat_word_ariths)
  have "unat (dumb_pitch args * ucast (height args)) + unat (PAGE_SIZE G) \<le> 2 ^ 64"
    using pr m assms(2) by simp
  then show ?thesis
    using roundup_unat [OF assms(1), of "dumb_pitch args * ucast (height args)"] pr
    by (simp add: dumb_size_def)
qed

lemma dumb_size_zero_iff:
  assumes "0 < unat (PAGE_SIZE G)" and "unat (PAGE_SIZE G) \<le> 2 ^ 32"
  shows "dumb_size G args = 0 \<longleftrightarrow> unat (dumb_pitch args) * unat (height args) = 0"
proof -
  let ?x = "unat (dumb_pitch args) * unat (height args)"
  let ?y = "unat (PAGE_SIZE G)"
  have "dumb_size G args = 0 \<longleftrightarrow> unat (dumb_size G args) = 0"
    by (simp add: unat_eq_0)
  also have "\<dots> \<longleftrightarrow> (?x + (?y - 1)) div ?y = 0"
    using assms by (simp add: dumb_size_unat)
  also have "\<dots> \<longleftrightarrow> ?x + (?y - 1) < ?y"
    using assms(1) by (simp add: div_eq_0_iff)
  also have "\<dots> \<longleftrightarrow> ?x = 0"
    using assms(1) by linarith
  finally show ?thesis .
qed

lemma dumb_example_values:
  "dumb_pitch dumb_args_example = 400" "dumb_size gem_ok dumb_args_example = 20480"
  by (simp_all add: dumb_pitch_def dumb_size_def roundup_def dumb_args_example_def gem_ok_def)

lemma dumb_overflow_values:
  "dumb_pitch dumb_args_overflow = 0" "dumb_size gem_ok dumb_args_overflow = 0"
  by (simp_all add: dumb_pitch_def dumb_size_def roundup_def dumb_args_overflow_def gem_ok_def)


section \<open>The mapping cache: kmap and kunmap\<close>

text \<open>
  Claim C1, as the code has it. On a buffer whose mapping count is 0 but which still holds a
  mapping left by a lazy release, a kmap call that only queries (\<open>map = false\<close>) returns
  the address of that mapping, establishes nothing new, and takes a reference: the count
  becomes 1. (The count stays as it is only on the path that returns "not mapped".)
\<close>

theorem kmap_query_takes_reference:
  assumes "kmap_use_count gbo = 0" and "virtual (kmap gbo) = Some v"
  shows "drm_gem_vram_kmap_locked E gbo False None = (Inr (Some v), gbo\<lparr>kmap_use_count := 1\<rparr>, None)
       \<and> drm_gem_vram_kmap_locked E gbo False (Some c)
           = (Inr (Some v), gbo\<lparr>kmap_use_count := 1\<rparr>, Some (Some (bo_kmap_iomem (kmap gbo))))
       \<and> (ttm_bo_reserve E (bo gbo) True False = 0 \<longrightarrow>
            fst (drm_gem_vram_kmap E gbo False is_iomem) = Inr (Some v)
          \<and> fst (snd (drm_gem_vram_kmap E gbo False is_iomem)) = gbo\<lparr>kmap_use_count := 1\<rparr>)"
  using assms
  by (cases is_iomem)
     (simp_all add: drm_gem_vram_kmap_def drm_gem_vram_kmap_locked_def kmap_out_def Let_def
        ttm_kmap_obj_virtual_def set_is_iomem_def)

theorem kmap_query_takes_reference_witness:
  "kmap_use_count gbo_stale = 0 \<and> virtual (kmap gbo_stale) = Some 4096
   \<and> ttm_bo_reserve ttm_ok (bo gbo_stale) True False = 0
   \<and> drm_gem_vram_kmap_locked ttm_ok gbo_stale False None
        = (Inr (Some 4096), gbo_stale\<lparr>kmap_use_count := 1\<rparr>, None)
   \<and> fst (snd (drm_gem_vram_kmap ttm_ok gbo_stale False None)) = gbo_stale\<lparr>kmap_use_count := 1\<rparr>"
  using kmap_query_takes_reference [of gbo_stale 4096 ttm_ok None None]
  by (simp add: gbo_stale_def gbo_zero_def ttm_ok_def)

text \<open>
  Claim C1 as stated ("leaves the count at 0") fails: the idle object \<open>gbo_stale\<close> holds a
  mapping at 4096 with count 0, and after the query its count is 1.
\<close>

theorem kmap_query_stale_counterexample:
  "kmap_use_count gbo_stale = 0 \<and> virtual (kmap gbo_stale) = Some 4096
   \<and> fst (drm_gem_vram_kmap ttm_ok gbo_stale False None) = Inr (Some 4096)
   \<and> kmap_use_count (fst (snd (drm_gem_vram_kmap ttm_ok gbo_stale False None))) = 1"
  by (simp add: gbo_stale_def gbo_zero_def ttm_ok_def drm_gem_vram_kmap_def
      drm_gem_vram_kmap_locked_def kmap_out_def Let_def)

text \<open>
  Claim C2. When kunmap takes the mapping count from 1 to 0, nothing else changes: the
  mapping stays in place. Neither kunmap nor its locked variant ever changes the map object.
  The hook \<open>move_notify\<close> tests the count first: while it is above 0 the hook warns and
  returns the object as it is; at 0 it unmaps (\<^verbatim>\<open>ttm_bo_kunmap\<close>) and clears the address.
  No other operation removes a mapping: any operation other than the hook itself, under a
  TTM that does not call the hook during validation, leaves an existing mapping unchanged.
  A validation during which TTM moves the buffer, and so calls the hook, removes the mapping
  when the count is 0 and keeps it while the count is above 0.
\<close>

theorem lazy_unmap_teardown_in_move_notify:
  "(kmap_use_count gbo = 1 \<longrightarrow> drm_gem_vram_kunmap_locked gbo = gbo\<lparr>kmap_use_count := 0\<rparr>)
   \<and> kmap (drm_gem_vram_kunmap_locked gbo) = kmap gbo
   \<and> kmap (drm_gem_vram_kunmap E gbo) = kmap gbo
   \<and> (kmap_use_count gbo > 0 \<longrightarrow>
        drm_gem_vram_bo_driver_move_notify gbo evict = log_event (Warn ''gbo->kmap_use_count'') gbo)
   \<and> (kmap_use_count gbo = 0 \<and> virtual (kmap gbo) = Some v \<longrightarrow>
        drm_gem_vram_bo_driver_move_notify gbo evict
          = (log_event (Call ''ttm_bo_kunmap'') gbo)\<lparr>kmap := (kmap gbo)\<lparr>virtual := None\<rparr>\<rparr>)
   \<and> ((\<forall>ev. x \<noteq> Move_notify ev) \<and> (\<forall>g. snd (snd (ttm_bo_validate E g)) = None)
        \<and> virtual (kmap gbo) = Some v \<longrightarrow> kmap (step E x gbo) = kmap gbo)
   \<and> (kmap_use_count gbo > 0 \<longrightarrow> kmap (snd (call_ttm_bo_validate E gbo)) = kmap gbo)
   \<and> (kmap_use_count gbo = 0 \<and> snd (snd (ttm_bo_validate E gbo)) = Some evict \<longrightarrow>
        virtual (kmap (snd (call_ttm_bo_validate E gbo))) = None)"
proof -
  have d: "kmap_use_count gbo > 0 \<longrightarrow> kmap (snd (call_ttm_bo_validate E gbo)) = kmap gbo"
    by (simp add: call_ttm_bo_validate_def drm_gem_vram_bo_driver_move_notify_def Let_def
        case_prod_beta split: option.splits)
  have e: "kmap_use_count gbo = 0 \<and> snd (snd (ttm_bo_validate E gbo)) = Some evict \<longrightarrow>
        virtual (kmap (snd (call_ttm_bo_validate E gbo))) = None"
    by (simp add: call_ttm_bo_validate_def drm_gem_vram_bo_driver_move_notify_def Let_def
        case_prod_beta)
  have a: "kmap_use_count gbo = 1 \<longrightarrow> drm_gem_vram_kunmap_locked gbo = gbo\<lparr>kmap_use_count := 0\<rparr>"
    by (simp add: drm_gem_vram_kunmap_locked_def Let_def)
  have b: "kmap_use_count gbo > 0 \<longrightarrow>
        drm_gem_vram_bo_driver_move_notify gbo evict = log_event (Warn ''gbo->kmap_use_count'') gbo"
    by (simp add: drm_gem_vram_bo_driver_move_notify_def)
  have c: "kmap_use_count gbo = 0 \<and> virtual (kmap gbo) = Some v \<longrightarrow>
        drm_gem_vram_bo_driver_move_notify gbo evict
          = (log_event (Call ''ttm_bo_kunmap'') gbo)\<lparr>kmap := (kmap gbo)\<lparr>virtual := None\<rparr>\<rparr>"
    by (simp add: drm_gem_vram_bo_driver_move_notify_def)
  show ?thesis
    using a b c d e step_keeps_mapping [of x E gbo v] by simp
qed

theorem lazy_unmap_teardown_in_move_notify_witness:
  "kmap_use_count (gbo_stale\<lparr>kmap_use_count := 1\<rparr>) = 1
   \<and> drm_gem_vram_kunmap_locked (gbo_stale\<lparr>kmap_use_count := 1\<rparr>) = gbo_stale
   \<and> virtual (kmap (drm_gem_vram_kunmap ttm_ok (gbo_stale\<lparr>kmap_use_count := 1\<rparr>))) = Some 4096
   \<and> drm_gem_vram_bo_driver_move_notify (gbo_stale\<lparr>kmap_use_count := 1\<rparr>) True
       = log_event (Warn ''gbo->kmap_use_count'') (gbo_stale\<lparr>kmap_use_count := 1\<rparr>)
   \<and> virtual (kmap (drm_gem_vram_bo_driver_move_notify gbo_stale True)) = None
   \<and> klog (drm_gem_vram_bo_driver_move_notify gbo_stale True) = [Call ''ttm_bo_kunmap'']
   \<and> virtual (kmap (step ttm_ok Unpin (gbo_stale\<lparr>pin_count := 1\<rparr>))) = Some 4096
   \<and> snd (snd (ttm_bo_validate ttm_moving gbo_stale)) = Some False
   \<and> virtual (kmap (snd (call_ttm_bo_validate ttm_moving gbo_stale))) = None
   \<and> virtual (kmap (snd (call_ttm_bo_validate ttm_moving (gbo_stale\<lparr>kmap_use_count := 1\<rparr>)))) = Some 4096"
  using lazy_unmap_teardown_in_move_notify [of "gbo_stale\<lparr>kmap_use_count := 1\<rparr>" ttm_ok True 4096 Kunmap]
    lazy_unmap_teardown_in_move_notify [of gbo_stale ttm_ok True 4096 Kunmap]
    lazy_unmap_teardown_in_move_notify [of "gbo_stale\<lparr>pin_count := 1\<rparr>" ttm_ok True 4096 Unpin]
    lazy_unmap_teardown_in_move_notify [of gbo_stale ttm_moving False 4096 Kunmap]
    lazy_unmap_teardown_in_move_notify [of "gbo_stale\<lparr>kmap_use_count := 1\<rparr>" ttm_moving False 4096 Kunmap]
  by (simp add: gbo_stale_def gbo_zero_def ttm_ok_def ttm_moving_def)

text \<open>
  Claim C10. A kmap call that is given a non-null \<open>is_iomem\<close> and returns \<^verbatim>\<open>NULL\<close> (not
  mapped) has written \<open>false\<close> to \<open>*is_iomem\<close>, whatever the cell held before.
\<close>

theorem kmap_not_mapped_sets_is_iomem:
  "(drm_gem_vram_kmap_locked E gbo map_it (Some c) = (Inr None, g1, io1) \<longrightarrow> io1 = Some (Some False))
   \<and> (drm_gem_vram_kmap E gbo map_it (Some c) = (Inr None, g2, io2) \<longrightarrow> io2 = Some (Some False))"
  by (auto simp: drm_gem_vram_kmap_def drm_gem_vram_kmap_locked_def kmap_out_def Let_def
      case_prod_beta set_is_iomem_def ttm_kmap_obj_virtual_def split: if_splits)

theorem kmap_not_mapped_sets_is_iomem_witness:
  "drm_gem_vram_kmap_locked ttm_ok gbo_zero False (Some None) = (Inr None, gbo_zero, Some (Some False))
   \<and> drm_gem_vram_kmap ttm_ok gbo_zero False (Some None) = (Inr None, gbo_zero, Some (Some False))"
  using kmap_not_mapped_sets_is_iomem [of ttm_ok gbo_zero False None gbo_zero
      "snd (snd (drm_gem_vram_kmap_locked ttm_ok gbo_zero False (Some None)))" gbo_zero
      "snd (snd (drm_gem_vram_kmap ttm_ok gbo_zero False (Some None)))"]
  by (simp add: gbo_zero_def ttm_ok_def drm_gem_vram_kmap_def drm_gem_vram_kmap_locked_def
      kmap_out_def Let_def set_is_iomem_def)

text \<open>
  Claim C7. A new object has mapping count 0 and no address, and every sequence of
  operations (kmap, kunmap, the move hook, and also pin, unpin, vmap and vunmap, each with
  any answers of TTM) keeps the invariant: a count above 0 implies a present address. With
  count 0 the invariant asks nothing: the witness reaches count 0 with a stale address, and
  count 0 with none.
\<close>

theorem kmap_cache_invariant:
  "(drm_gem_vram_create G sz al i = Inr gbo \<longrightarrow> kmap_use_count gbo = 0 \<and> virtual (kmap gbo) = None)
   \<and> ((kmap_use_count gbo > 0 \<longrightarrow> virtual (kmap gbo) \<noteq> None) \<longrightarrow>
        (kmap_use_count (run ops gbo) > 0 \<longrightarrow> virtual (kmap (run ops gbo)) \<noteq> None))"
  using created_fields [of G sz al i gbo] run_kmap_inv [of gbo ops]
  by (simp add: kmap_inv_def)

theorem kmap_cache_invariant_witness:
  "drm_gem_vram_create gem_ok 4096 0 False = Inr gbo_new
   \<and> kmap_use_count gbo_new = 0 \<and> virtual (kmap gbo_new) = None
   \<and> kmap_use_count (run [(ttm_ok, Kmap True None), (ttm_ok, Kmap False None), (ttm_ok, Kunmap)] gbo_new) = 1
   \<and> virtual (kmap (run [(ttm_ok, Kmap True None), (ttm_ok, Kmap False None), (ttm_ok, Kunmap)] gbo_new)) = Some 4096
   \<and> kmap_use_count (run [(ttm_ok, Kmap True None), (ttm_ok, Kunmap)] gbo_new) = 0
   \<and> virtual (kmap (run [(ttm_ok, Kmap True None), (ttm_ok, Kunmap)] gbo_new)) = Some 4096
   \<and> kmap_use_count (run [(ttm_ok, Kmap True None), (ttm_ok, Kunmap), (ttm_ok, Move_notify True)] gbo_new) = 0
   \<and> virtual (kmap (run [(ttm_ok, Kmap True None), (ttm_ok, Kunmap), (ttm_ok, Move_notify True)] gbo_new)) = None"
  using kmap_cache_invariant [of gem_ok 4096 0 False gbo_new
      "[(ttm_ok, Kmap True None), (ttm_ok, Kmap False None), (ttm_ok, Kunmap)]"]
    gbo_new_created
  by (simp add: gbo_new_def ttm_ok_def drm_gem_vram_kmap_def drm_gem_vram_kmap_locked_def
      kmap_out_def drm_gem_vram_kunmap_def drm_gem_vram_kunmap_locked_def
      drm_gem_vram_bo_driver_move_notify_def Let_def)

section \<open>Pinning\<close>

text \<open>
  Claim C3. On an object whose pin count is above 0, pin only adds 1 to the count and
  returns 0, for any flags and any TTM: the result does not depend on what validation would
  answer, no call is logged, and the TTM part of the object (its tier), the placement and
  the placement flags are the ones before the call.
\<close>

theorem pin_reentrant:
  assumes "pin_count gbo > 0"
  shows "drm_gem_vram_pin_locked E gbo pl_flag = (0, gbo\<lparr>pin_count := pin_count gbo + 1\<rparr>)
       \<and> (ttm_bo_reserve E (bo gbo) True False = 0 \<longrightarrow>
            drm_gem_vram_pin E gbo pl_flag = (0, gbo\<lparr>pin_count := pin_count gbo + 1\<rparr>))
       \<and> bo (snd (drm_gem_vram_pin_locked E gbo pl_flag)) = bo gbo
       \<and> placement (snd (drm_gem_vram_pin_locked E gbo pl_flag)) = placement gbo
       \<and> placements (snd (drm_gem_vram_pin_locked E gbo pl_flag)) = placements gbo
       \<and> klog (snd (drm_gem_vram_pin_locked E gbo pl_flag)) = klog gbo"
  using assms by (simp add: drm_gem_vram_pin_locked_def drm_gem_vram_pin_def Let_def)

theorem pin_reentrant_witness:
  "pin_count (gbo_new\<lparr>pin_count := 1\<rparr>) > 0
   \<and> ttm_bo_reserve ttm_nomem (bo (gbo_new\<lparr>pin_count := 1\<rparr>)) True False = 0
   \<and> drm_gem_vram_pin ttm_nomem (gbo_new\<lparr>pin_count := 1\<rparr>) {TTM_PL_FLAG_VRAM}
        = (0, gbo_new\<lparr>pin_count := 2\<rparr>)"
  using pin_reentrant [of "gbo_new\<lparr>pin_count := 1\<rparr>" ttm_nomem "{TTM_PL_FLAG_VRAM}"]
  by (simp add: gbo_new_def ttm_nomem_def)

text \<open>
  Claim C4. On an object whose pin count is 0, when the validation that pin runs (on the
  object with its placement prepared and marked no-evict) answers a negative code, pin
  returns that code and the pin count is still 0.
\<close>

theorem pin_failure_keeps_count:
  assumes "pin_count gbo = 0"
    and "ttm_bo_validate E (set_no_evict (if pl_flag \<noteq> {} then drm_gem_vram_placement gbo pl_flag else gbo))
           = (ret, b, moved)"
    and "ret < 0"
  shows "fst (drm_gem_vram_pin_locked E gbo pl_flag) = ret
       \<and> pin_count (snd (drm_gem_vram_pin_locked E gbo pl_flag)) = 0
       \<and> (ttm_bo_reserve E (bo gbo) True False = 0 \<longrightarrow>
            fst (drm_gem_vram_pin E gbo pl_flag) = ret
          \<and> pin_count (snd (drm_gem_vram_pin E gbo pl_flag)) = 0)"
proof -
  have r: "fst (drm_gem_vram_pin_locked E gbo pl_flag) = ret"
    using assms by (simp add: drm_gem_vram_pin_locked_def Let_def case_prod_beta validate_fst)
  have c: "pin_count (snd (drm_gem_vram_pin_locked E gbo pl_flag)) = 0"
    using assms r by (simp add: pin_locked_pin_count)
  show ?thesis using r c by (simp add: drm_gem_vram_pin_def Let_def)
qed

theorem pin_failure_keeps_count_witness:
  "pin_count gbo_new = 0 \<and> - ENOMEM < 0
   \<and> ttm_bo_validate ttm_nomem (set_no_evict (drm_gem_vram_placement gbo_new {TTM_PL_FLAG_VRAM}))
        = (- ENOMEM, bo gbo_new, None)
   \<and> ttm_bo_reserve ttm_nomem (bo gbo_new) True False = 0
   \<and> fst (drm_gem_vram_pin ttm_nomem gbo_new {TTM_PL_FLAG_VRAM}) = - ENOMEM
   \<and> pin_count (snd (drm_gem_vram_pin ttm_nomem gbo_new {TTM_PL_FLAG_VRAM})) = 0"
  using pin_failure_keeps_count [of gbo_new ttm_nomem "{TTM_PL_FLAG_VRAM}" "- ENOMEM" "bo gbo_new" None]
  by (simp add: gbo_new_def ttm_nomem_def ENOMEM_def set_no_evict_def drm_gem_vram_placement_def Let_def)

text \<open>
  Claim C5. A new object has pin count 0, and no sequence of operations takes a
  non-negative pin count below 0. Unpin on a count of 0 warns, changes nothing else and
  returns 0: the count is not decremented.
\<close>

theorem pin_count_never_negative:
  "(drm_gem_vram_create G sz al i = Inr gbo \<longrightarrow> pin_count gbo = 0)
   \<and> (0 \<le> pin_count gbo \<longrightarrow> 0 \<le> pin_count (run ops gbo))
   \<and> (pin_count gbo = 0 \<longrightarrow>
        drm_gem_vram_unpin_locked E gbo = (0, log_event (Warn ''!gbo->pin_count'') gbo)
      \<and> pin_count (snd (drm_gem_vram_unpin E gbo)) = 0)"
  using created_fields [of G sz al i gbo] run_pin_inv [of gbo ops]
  by (simp add: pin_inv_def drm_gem_vram_unpin_locked_def drm_gem_vram_unpin_def Let_def)

theorem pin_count_never_negative_witness:
  "drm_gem_vram_create gem_ok 4096 0 False = Inr gbo_new
   \<and> pin_count gbo_new = 0
   \<and> pin_count (run [(ttm_ok, Unpin), (ttm_ok, Pin {}), (ttm_ok, Unpin), (ttm_ok, Unpin)] gbo_new) = 0
   \<and> drm_gem_vram_unpin_locked ttm_ok gbo_new = (0, gbo_new\<lparr>klog := [Warn ''!gbo->pin_count'']\<rparr>)"
  using pin_count_never_negative [of gem_ok 4096 0 False gbo_new
      "[(ttm_ok, Unpin), (ttm_ok, Pin {}), (ttm_ok, Unpin), (ttm_ok, Unpin)]" ttm_ok]
    gbo_new_created
  by (simp add: gbo_new_def ttm_ok_def drm_gem_vram_unpin_def drm_gem_vram_unpin_locked_def
      drm_gem_vram_pin_def drm_gem_vram_pin_locked_def call_ttm_bo_validate_def set_no_evict_def
      clear_no_evict_def for_places_def log_event_def Let_def)

section \<open>vmap and vunmap\<close>

text \<open>
  Claim C6. On an object with a valid (non-negative) pin count: a vmap that returns an
  address, followed by a vunmap that gets the reservation, leaves the pin count and the
  mapping count as they were before the vmap. Once reserved and pinned, vmap returns what
  kmap with \<open>map = true\<close> returns on the pinned object, and on success the object is the
  one kmap leaves. When that kmap returns an error, vmap unpins and returns the error; and
  whenever vmap returns an error, both counts are the ones before the call.
\<close>

theorem vmap_vunmap_roundtrip:
  assumes "0 \<le> pin_count gbo"
  shows "(drm_gem_vram_object_vmap E gbo = (Inr (Some a), g') \<and> ttm_bo_reserve E' (bo g') False False = 0 \<longrightarrow>
            pin_count (drm_gem_vram_object_vunmap E' g' vaddr) = pin_count gbo
          \<and> kmap_use_count (drm_gem_vram_object_vunmap E' g' vaddr) = kmap_use_count gbo)
       \<and> (ttm_bo_reserve E (bo gbo) True False = 0 \<and> fst (drm_gem_vram_pin_locked E gbo {}) = 0 \<longrightarrow>
            fst (drm_gem_vram_object_vmap E gbo)
              = fst (drm_gem_vram_kmap_locked E (snd (drm_gem_vram_pin_locked E gbo {})) True None))
       \<and> (ttm_bo_reserve E (bo gbo) True False = 0 \<and> fst (drm_gem_vram_pin_locked E gbo {}) = 0
          \<and> fst (drm_gem_vram_kmap_locked E (snd (drm_gem_vram_pin_locked E gbo {})) True None) = Inr p \<longrightarrow>
            snd (drm_gem_vram_object_vmap E gbo)
              = fst (snd (drm_gem_vram_kmap_locked E (snd (drm_gem_vram_pin_locked E gbo {})) True None)))
       \<and> (ttm_bo_reserve E (bo gbo) True False = 0 \<and> fst (drm_gem_vram_pin_locked E gbo {}) = 0
          \<and> fst (drm_gem_vram_kmap_locked E (snd (drm_gem_vram_pin_locked E gbo {})) True None) = Inl err \<longrightarrow>
            drm_gem_vram_object_vmap E gbo
              = (Inl err, snd (drm_gem_vram_unpin_locked E
                   (fst (snd (drm_gem_vram_kmap_locked E (snd (drm_gem_vram_pin_locked E gbo {})) True None))))))
       \<and> (fst (drm_gem_vram_object_vmap E gbo) = Inl err \<longrightarrow>
            pin_count (snd (drm_gem_vram_object_vmap E gbo)) = pin_count gbo
          \<and> kmap_use_count (snd (drm_gem_vram_object_vmap E gbo)) = kmap_use_count gbo)"
proof -
  have a: "pin_count (drm_gem_vram_object_vunmap E' g' vaddr) = pin_count gbo
          \<and> kmap_use_count (drm_gem_vram_object_vunmap E' g' vaddr) = kmap_use_count gbo"
    if v: "drm_gem_vram_object_vmap E gbo = (Inr (Some a), g')"
      and r: "ttm_bo_reserve E' (bo g') False False = 0"
  proof -
    have c: "pin_count g' = pin_count gbo + 1" "kmap_use_count g' = kmap_use_count gbo + 1"
      using vmap_success_counts [OF v] by simp_all
    have k: "kmap_use_count (drm_gem_vram_kunmap_locked g') = kmap_use_count gbo"
      using c by (simp add: drm_gem_vram_kunmap_locked_def Let_def)
    show ?thesis
      using r c k assms by (simp add: drm_gem_vram_object_vunmap_def Let_def unpin_locked_pin_count)
  qed
  have b: "ttm_bo_reserve E (bo gbo) True False = 0 \<and> fst (drm_gem_vram_pin_locked E gbo {}) = 0 \<longrightarrow>
            fst (drm_gem_vram_object_vmap E gbo)
              = fst (drm_gem_vram_kmap_locked E (snd (drm_gem_vram_pin_locked E gbo {})) True None)"
    by (simp add: vmap_cases split: sum.splits)
  have c: "ttm_bo_reserve E (bo gbo) True False = 0 \<and> fst (drm_gem_vram_pin_locked E gbo {}) = 0
          \<and> fst (drm_gem_vram_kmap_locked E (snd (drm_gem_vram_pin_locked E gbo {})) True None) = Inr p \<longrightarrow>
            snd (drm_gem_vram_object_vmap E gbo)
              = fst (snd (drm_gem_vram_kmap_locked E (snd (drm_gem_vram_pin_locked E gbo {})) True None))"
    by (simp add: vmap_cases)
  have d: "ttm_bo_reserve E (bo gbo) True False = 0 \<and> fst (drm_gem_vram_pin_locked E gbo {}) = 0
          \<and> fst (drm_gem_vram_kmap_locked E (snd (drm_gem_vram_pin_locked E gbo {})) True None) = Inl err \<longrightarrow>
            drm_gem_vram_object_vmap E gbo
              = (Inl err, snd (drm_gem_vram_unpin_locked E
                   (fst (snd (drm_gem_vram_kmap_locked E (snd (drm_gem_vram_pin_locked E gbo {})) True None)))))"
    by (simp add: vmap_cases)
  show ?thesis
    using a b c d vmap_error_counts [OF assms, of E err] by blast
qed

theorem vmap_vunmap_roundtrip_witness:
  "0 \<le> pin_count gbo_new
   \<and> fst (drm_gem_vram_object_vmap ttm_ok gbo_new) = Inr (Some 4096)
   \<and> pin_count (snd (drm_gem_vram_object_vmap ttm_ok gbo_new)) = 1
   \<and> kmap_use_count (snd (drm_gem_vram_object_vmap ttm_ok gbo_new)) = 1
   \<and> pin_count (drm_gem_vram_object_vunmap ttm_ok (snd (drm_gem_vram_object_vmap ttm_ok gbo_new)) (Some 4096)) = 0
   \<and> kmap_use_count (drm_gem_vram_object_vunmap ttm_ok (snd (drm_gem_vram_object_vmap ttm_ok gbo_new)) (Some 4096)) = 0
   \<and> 0 \<le> pin_count (gbo_new\<lparr>pin_count := 3\<rparr>)
   \<and> fst (drm_gem_vram_pin_locked ttm_nomap (gbo_new\<lparr>pin_count := 3\<rparr>) {}) = 0
   \<and> fst (drm_gem_vram_kmap_locked ttm_nomap
             (snd (drm_gem_vram_pin_locked ttm_nomap (gbo_new\<lparr>pin_count := 3\<rparr>) {})) True None) = Inl (- ENOMEM)
   \<and> fst (drm_gem_vram_object_vmap ttm_nomap (gbo_new\<lparr>pin_count := 3\<rparr>)) = Inl (- ENOMEM)
   \<and> pin_count (snd (drm_gem_vram_object_vmap ttm_nomap (gbo_new\<lparr>pin_count := 3\<rparr>))) = 3
   \<and> kmap_use_count (snd (drm_gem_vram_object_vmap ttm_nomap (gbo_new\<lparr>pin_count := 3\<rparr>))) = 0"
  using vmap_vunmap_roundtrip [of gbo_new ttm_ok 4096 "snd (drm_gem_vram_object_vmap ttm_ok gbo_new)"
      ttm_ok "Some 4096" "Some 4096" "- ENOMEM"]
    vmap_vunmap_roundtrip [of "gbo_new\<lparr>pin_count := 3\<rparr>" ttm_nomap 4096
      "snd (drm_gem_vram_object_vmap ttm_nomap (gbo_new\<lparr>pin_count := 3\<rparr>))"
      ttm_nomap "Some 4096" "Some 4096" "- ENOMEM"]
  by (simp add: gbo_new_def ttm_ok_def ttm_nomap_def drm_gem_vram_object_vmap_def
      drm_gem_vram_object_vunmap_def drm_gem_vram_pin_locked_def drm_gem_vram_unpin_locked_def
      drm_gem_vram_kmap_locked_def drm_gem_vram_kunmap_locked_def kmap_out_def
      call_ttm_bo_validate_def set_no_evict_def clear_no_evict_def for_places_def log_event_def
      Let_def ENOMEM_def)

section \<open>Destruction\<close>

text \<open>
  Claim C9, as the code has it. Cleanup checks the mapping cache only: it warns when the
  mapping count is not 0, warns when an address is still held, and releases the GEM object.
  The pin count is not looked at: cleanup does the same whatever it is.
\<close>

theorem cleanup_checks_mapping_cache:
  "klog (drm_gem_vram_cleanup gbo) =
     klog gbo
     @ (if kmap_use_count gbo \<noteq> 0 then [Warn ''gbo->kmap_use_count''] else [])
     @ (if virtual (kmap gbo) \<noteq> None then [Warn ''gbo->kmap.virtual''] else [])
     @ [Call ''drm_gem_object_release'']
   \<and> drm_gem_vram_cleanup (gbo\<lparr>pin_count := n\<rparr>) = (drm_gem_vram_cleanup gbo)\<lparr>pin_count := n\<rparr>"
  by (simp add: drm_gem_vram_cleanup_def Let_def log_event_def)

text \<open>
  Claim C9 as stated ("an empty pin count is checked") fails: destroying an object whose
  pin count is 1, with an empty mapping cache, logs the release and no warning.
\<close>

theorem cleanup_pinned_counterexample:
  "pin_count (gbo_new\<lparr>pin_count := 1\<rparr>) = 1
   \<and> klog (drm_gem_vram_cleanup (gbo_new\<lparr>pin_count := 1\<rparr>)) = [Call ''drm_gem_object_release'']"
  by (simp add: gbo_new_def drm_gem_vram_cleanup_def Let_def log_event_def)

section \<open>Dumb buffers\<close>

text \<open>
  Claim C8, as the code has it, with \<^verbatim>\<open>size_t\<close> and \<^verbatim>\<open>unsigned long\<close> 64 bits wide and the
  fields \<open>width\<close>, \<open>height\<close> and \<open>bpp\<close> 32 bits wide. When the 32-bit computation of the
  pitch does not overflow (\<open>bpp + 7\<close> and \<open>width * ((bpp + 7) div 8)\<close> stay below \<open>2^32\<close>) and
  the page size is positive and at most \<open>2^32\<close>, the pitch is \<open>width * ceil(bpp / 8)\<close> and
  the size is \<open>pitch * height\<close> rounded up to a multiple of the page size. The size is 0
  exactly when \<open>pitch * height\<close> is 0, and then the helper returns \<open>-EINVAL\<close> and leaves
  the arguments. Otherwise it returns the error of object creation, or the non-zero code of
  handle creation (the arguments are left as they were in both cases), or, when creation
  and the handle succeed, 0 with pitch, size and handle stored. For width 100, height 50,
  bpp 32 and 4096-byte pages the witness gives pitch 400 and size 20480.
\<close>

theorem fill_create_dumb_no_overflow:
  assumes "unat (bpp args) + 7 < 2 ^ 32"
    and "unat (width args) * ((unat (bpp args) + 7) div 8) < 2 ^ 32"
    and "0 < unat (PAGE_SIZE G)" and "unat (PAGE_SIZE G) \<le> 2 ^ 32"
  shows "unat (dumb_pitch args) = unat (width args) * ((unat (bpp args) + 7) div 8)
       \<and> unat (dumb_size G args) =
           ((unat (width args) * ((unat (bpp args) + 7) div 8) * unat (height args)
              + (unat (PAGE_SIZE G) - 1)) div unat (PAGE_SIZE G)) * unat (PAGE_SIZE G)
       \<and> (dumb_size G args = 0 \<longleftrightarrow>
            unat (width args) * ((unat (bpp args) + 7) div 8) * unat (height args) = 0)
       \<and> (dumb_size G args = 0 \<longrightarrow>
            drm_gem_vram_fill_create_dumb G pg_align interruptible args = (- EINVAL, args))
       \<and> (dumb_size G args \<noteq> 0
            \<and> drm_gem_vram_create G (dumb_size G args) pg_align interruptible = Inl err \<longrightarrow>
            drm_gem_vram_fill_create_dumb G pg_align interruptible args = (err, args))
       \<and> (dumb_size G args \<noteq> 0
            \<and> drm_gem_vram_create G (dumb_size G args) pg_align interruptible = Inr gbo
            \<and> drm_gem_handle_create G gbo = (0, h) \<longrightarrow>
            fst (drm_gem_vram_fill_create_dumb G pg_align interruptible args) = 0
          \<and> unat (pitch (snd (drm_gem_vram_fill_create_dumb G pg_align interruptible args)))
              = unat (width args) * ((unat (bpp args) + 7) div 8)
          \<and> size_u64 (snd (drm_gem_vram_fill_create_dumb G pg_align interruptible args))
              = dumb_size G args
          \<and> handle (snd (drm_gem_vram_fill_create_dumb G pg_align interruptible args)) = h
          \<and> drm_gem_vram_fill_create_dumb G pg_align interruptible args
              = (0, args\<lparr>pitch := ucast (dumb_pitch args), size_u64 := dumb_size G args, handle := h\<rparr>))
       \<and> (dumb_size G args \<noteq> 0
            \<and> drm_gem_vram_create G (dumb_size G args) pg_align interruptible = Inr gbo
            \<and> drm_gem_handle_create G gbo = (ret, h') \<and> ret \<noteq> 0 \<longrightarrow>
            drm_gem_vram_fill_create_dumb G pg_align interruptible args = (ret, args))"
proof -
  have p: "unat (dumb_pitch args) = unat (width args) * ((unat (bpp args) + 7) div 8)"
    using assms(1,2) by (rule dumb_pitch_unat)
  have s: "unat (dumb_size G args) =
           ((unat (width args) * ((unat (bpp args) + 7) div 8) * unat (height args)
              + (unat (PAGE_SIZE G) - 1)) div unat (PAGE_SIZE G)) * unat (PAGE_SIZE G)"
    using dumb_size_unat [OF assms(3,4), of args] p by simp
  have z: "dumb_size G args = 0 \<longleftrightarrow>
            unat (width args) * ((unat (bpp args) + 7) div 8) * unat (height args) = 0"
    using dumb_size_zero_iff [OF assms(3,4), of args] p by simp
  have "take_bit 32 (unat (dumb_pitch args)) = unat (dumb_pitch args)"
    using dumb_pitch_bound [of args] by (simp only: take_bit_nat_eq_self)
  then have t: "unat (ucast (dumb_pitch args) :: 32 word) = unat (width args) * ((unat (bpp args) + 7) div 8)"
    using p by (simp add: unsigned_ucast_eq)
  have f: "dumb_size G args = 0 \<longrightarrow>
            drm_gem_vram_fill_create_dumb G pg_align interruptible args = (- EINVAL, args)"
    by (simp add: drm_gem_vram_fill_create_dumb_def Let_def)
  have e: "dumb_size G args \<noteq> 0
            \<and> drm_gem_vram_create G (dumb_size G args) pg_align interruptible = Inl err \<longrightarrow>
            drm_gem_vram_fill_create_dumb G pg_align interruptible args = (err, args)"
    by (simp add: drm_gem_vram_fill_create_dumb_def Let_def)
  have k: "dumb_size G args \<noteq> 0
            \<and> drm_gem_vram_create G (dumb_size G args) pg_align interruptible = Inr gbo
            \<and> drm_gem_handle_create G gbo = (0, h) \<longrightarrow>
            drm_gem_vram_fill_create_dumb G pg_align interruptible args
              = (0, args\<lparr>pitch := ucast (dumb_pitch args), size_u64 := dumb_size G args, handle := h\<rparr>)"
    by (simp add: drm_gem_vram_fill_create_dumb_def Let_def)
  have n: "dumb_size G args \<noteq> 0
            \<and> drm_gem_vram_create G (dumb_size G args) pg_align interruptible = Inr gbo
            \<and> drm_gem_handle_create G gbo = (ret, h') \<and> ret \<noteq> 0 \<longrightarrow>
            drm_gem_vram_fill_create_dumb G pg_align interruptible args = (ret, args)"
    by (simp add: drm_gem_vram_fill_create_dumb_def Let_def)
  show ?thesis
    using p s z t f e k n by simp
qed

theorem fill_create_dumb_no_overflow_witness:
  "unat (bpp dumb_args_example) + 7 < 2 ^ 32
   \<and> unat (width dumb_args_example) * ((unat (bpp dumb_args_example) + 7) div 8) < 2 ^ 32
   \<and> 0 < unat (PAGE_SIZE gem_ok) \<and> unat (PAGE_SIZE gem_ok) \<le> 2 ^ 32
   \<and> unat (dumb_pitch dumb_args_example) = 400
   \<and> unat (dumb_size gem_ok dumb_args_example) = 20480
   \<and> drm_gem_vram_create gem_ok (dumb_size gem_ok dumb_args_example) 0 False
        = Inr (gbo_new\<lparr>bo := \<lparr>mem_type = 0, offset = 0, num_pages = 5\<rparr>\<rparr>)
   \<and> drm_gem_handle_create gem_ok (gbo_new\<lparr>bo := \<lparr>mem_type = 0, offset = 0, num_pages = 5\<rparr>\<rparr>) = (0, 1)
   \<and> fst (drm_gem_vram_fill_create_dumb gem_ok 0 False dumb_args_example) = 0
   \<and> unat (pitch (snd (drm_gem_vram_fill_create_dumb gem_ok 0 False dumb_args_example))) = 400
   \<and> size_u64 (snd (drm_gem_vram_fill_create_dumb gem_ok 0 False dumb_args_example)) = 20480
   \<and> handle (snd (drm_gem_vram_fill_create_dumb gem_ok 0 False dumb_args_example)) = 1
   \<and> drm_gem_vram_fill_create_dumb gem_ok 0 False dumb_args_example
        = (0, dumb_args_example\<lparr>pitch := 400, size_u64 := 20480, handle := 1\<rparr>)
   \<and> drm_gem_handle_create gem_nohandle (gbo_new\<lparr>bo := \<lparr>mem_type = 0, offset = 0, num_pages = 5\<rparr>\<rparr>)
        = (- ENOMEM, 0)
   \<and> - ENOMEM \<noteq> 0
   \<and> drm_gem_vram_fill_create_dumb gem_nohandle 0 False dumb_args_example
        = (- ENOMEM, dumb_args_example)"
proof -
  have c: "drm_gem_vram_create gem_ok 20480 0 False
        = Inr (gbo_new\<lparr>bo := \<lparr>mem_type = 0, offset = 0, num_pages = 5\<rparr>\<rparr>)"
    by (simp add: drm_gem_vram_create_def drm_gem_vram_init_def gem_ok_def gbo_zero_def gbo_new_def
      drm_gem_vram_placement_def upd_place_def for_places_def Let_def TTM_PL_MASK_CACHING_def
      insert_commute)
  have a: "bpp dumb_args_example = 32" "width dumb_args_example = 100" "height dumb_args_example = 50"
    by (simp_all add: dumb_args_example_def)
  have g: "PAGE_SIZE gem_ok = 4096" "drm_gem_handle_create gem_ok = (\<lambda>g. (0, 1))"
    by (simp_all add: gem_ok_def)
  have n: "PAGE_SIZE gem_nohandle = 4096"
    "drm_gem_handle_create gem_nohandle = (\<lambda>g. (- ENOMEM, 0))"
    "dumb_size gem_nohandle dumb_args_example = dumb_size gem_ok dumb_args_example"
    "drm_gem_vram_create gem_nohandle 20480 0 False = drm_gem_vram_create gem_ok 20480 0 False"
    by (simp_all add: gem_nohandle_def gem_ok_def dumb_size_def
        drm_gem_vram_create_def drm_gem_vram_init_def)
  show ?thesis
    using fill_create_dumb_no_overflow [of dumb_args_example gem_ok 0 False "- ENOMEM"
        "gbo_new\<lparr>bo := \<lparr>mem_type = 0, offset = 0, num_pages = 5\<rparr>\<rparr>" 1 "- ENOMEM" 0]
      fill_create_dumb_no_overflow [of dumb_args_example gem_nohandle 0 False "- ENOMEM"
        "gbo_new\<lparr>bo := \<lparr>mem_type = 0, offset = 0, num_pages = 5\<rparr>\<rparr>" 1 "- ENOMEM" 0]
    by (simp add: dumb_example_values c a g n ENOMEM_def)
qed

text \<open>
  Claim C8 as stated ("for all inputs") fails where the 32-bit product wraps: for width
  \<open>2^31\<close>, bpp 16 and height 1 the claimed pitch is \<open>2^32\<close> and the claimed size \<open>2^32\<close>,
  not 0; the code computes pitch 0 and size 0 and returns \<open>-EINVAL\<close>.
\<close>

theorem fill_create_dumb_overflow_counterexample:
  "unat (width dumb_args_overflow) * ((unat (bpp dumb_args_overflow) + 7) div 8) = 4294967296
   \<and> ((4294967296 * unat (height dumb_args_overflow) + (unat (PAGE_SIZE gem_ok) - 1))
        div unat (PAGE_SIZE gem_ok)) * unat (PAGE_SIZE gem_ok) = (4294967296 :: nat)
   \<and> dumb_pitch dumb_args_overflow = 0
   \<and> dumb_size gem_ok dumb_args_overflow = 0
   \<and> drm_gem_vram_fill_create_dumb gem_ok 0 False dumb_args_overflow = (- EINVAL, dumb_args_overflow)"
proof -
  have a: "bpp dumb_args_overflow = 16" "width dumb_args_overflow = 2147483648"
    "height dumb_args_overflow = 1"
    by (simp_all add: dumb_args_overflow_def)
  have g: "PAGE_SIZE gem_ok = 4096"
    by (simp add: gem_ok_def)
  show ?thesis
    by (simp add: a g dumb_overflow_values drm_gem_vram_fill_create_dumb_def Let_def)
qed

end
